theory Spec2Isabelle
  imports Main
begin

unbundle bit_operations_syntax

section \<open>Python values and text\<close>

text \<open>
  The package class \<open>ModflowPks\<close> of \<open>flopy/modflow/mfpks.py\<close> keeps solver settings,
  prints them to a control file (\<open>write_file\<close>) and has a stub \<open>load\<close>.

  The program never computes with its floating point settings, it only prints them with
  \<open>str.format\<close>. A float is therefore carried as the text that Python's \<open>str\<close> gives
  for it (\<open>1.0\<close>, \<open>0.97\<close>, \<open>0.001\<close>, \<open>1e-05\<close>, \<open>inf\<close>, \<open>nan\<close>).
\<close>

datatype pyfloat = PyFloat string

fun str_float :: "pyfloat \<Rightarrow> string" where
  "str_float (PyFloat s) = s"

text \<open>
  The norm selection \<open>l2norm\<close> and the partition data \<open>partdata\<close> are the two attributes
  whose value may be \<open>None\<close>, a string or a number.
\<close>

datatype pyval = PyNone | PyStr string | PyInt int | PyFlt pyfloat | PyBool bool

datatype error =
    Exception string
  | AttributeError
  | IndexError
  | FileNotFoundError

abbreviation nl :: char where
  "nl \<equiv> CHR 0x0A"

text \<open>\<open>str\<close> of a Python integer: decimal digits, with a minus sign when negative.\<close>

definition digit_char :: "nat \<Rightarrow> char" where
  "digit_char d = ''0123456789'' ! d"

fun digits :: "nat \<Rightarrow> string" where
  "digits n = (if n < 10 then [digit_char n] else digits (n div 10) @ [digit_char (n mod 10)])"

declare digits.simps [simp del]

definition str_int :: "int \<Rightarrow> string" where
  "str_int i = (if i < 0 then CHR ''-'' # digits (nat (- i)) else digits (nat i))"

text \<open>
  \<open>str.lower\<close>: the letters \<open>A\<close> to \<open>Z\<close> go to \<open>a\<close> to \<open>z\<close>, every other
  character stays. (No character outside ASCII lowercases to one of the letters of
  \<open>l2norm\<close> or \<open>rl2norm\<close>, the only texts the result is compared with.)
\<close>

definition lower_char :: "char \<Rightarrow> char" where
  "lower_char c =
     (case map_of (zip ''ABCDEFGHIJKLMNOPQRSTUVWXYZ'' ''abcdefghijklmnopqrstuvwxyz'') c of
        Some d \<Rightarrow> d
      | None \<Rightarrow> c)"

definition lower :: "string \<Rightarrow> string" where
  "lower s = map lower_char s"

text \<open>\<open>x.lower()\<close> on a value: only a string has the method.\<close>

fun py_lower :: "pyval \<Rightarrow> error + string" where
  "py_lower (PyStr s) = Inr (lower s)"
| "py_lower _ = Inl AttributeError"

text \<open>
  The lines of a text, as reading the file line by line gives them, each without its
  newline. A last line with no newline at its end counts as a line.
\<close>

fun split_lines :: "string \<Rightarrow> string \<Rightarrow> string list" where
  "split_lines cur [] = (if cur = [] then [] else [cur])"
| "split_lines cur (c # cs) =
     (if c = nl then cur # split_lines [] cs else split_lines (cur @ [c]) cs)"

definition lines_of :: "string \<Rightarrow> string list" where
  "lines_of s = split_lines [] s"

section \<open>The package object\<close>

text \<open>
  The keyword arguments of the constructor that become attributes of the same name.
\<close>

record params =
  mxiter :: int
  innerit :: int
  isolver :: int
  npc :: int
  iscl :: int
  iord :: int
  ncoresm :: int
  ncoresv :: int
  damp :: pyfloat
  dampt :: pyfloat
  relax :: pyfloat
  ifill :: int
  droptol :: pyfloat
  hclose :: pyfloat
  rclose :: pyfloat
  l2norm :: pyval
  iprpks :: int
  mutpks :: int
  mpi :: bool
  partopt :: int
  novlapimpsol :: int
  stenimpsol :: int
  verbose :: int
  partdata :: pyval

text \<open>
  An instance: the settings, and what the ancestor's constructor and
  \<open>_generate_heading\<close> set (\<open>self.parent\<close> is left out: the model is passed where it
  is needed).
\<close>

record pks = params +
  extension :: string
  name :: "string list"
  unit_number :: "int list"
  extra :: "string list"
  file_name :: "string option list"
  heading :: string
  url :: string

section \<open>Writing the package file\<close>

text \<open>
  The norm branch of \<open>write_file\<close> (lines 207 to 211): the chunks it writes, or the
  error of \<open>self.l2norm.lower()\<close>.
\<close>

definition write_norm :: "pyval \<Rightarrow> error + string list" where
  "write_norm v =
     (if v \<noteq> PyNone then
        (case py_lower v of
           Inl e \<Rightarrow> Inl e
         | Inr low \<Rightarrow>
             if low = ''l2norm'' \<or> v = PyStr ''1'' then Inr [''L2NORM'' @ [nl]]
             else if low = ''rl2norm'' \<or> v = PyStr ''2'' then Inr [''RELATIVE-L2NORM'' @ [nl]]
             else Inr [])
      else Inr [])"

text \<open>
  \<open>write_file\<close> returns the arguments of its calls of \<open>f.write\<close>, in order, and the
  error that ended it, if any. The sink \<open>f\<close> is the file opened at \<open>self.fn_path\<close>.
  In \<open>self.partopt == 1 | 2\<close> the operator \<open>|\<close> binds tighter than \<open>==\<close>; the
  branch does nothing.
\<close>

definition write_file :: "pks \<Rightarrow> string list \<times> error option" where
  "write_file self =
     (let f = [];
          f = f @ [heading self @ [nl]];
          f = f @ [''MXITER '' @ str_int (mxiter self) @ [nl]];
          f = f @ [''INNERIT '' @ str_int (innerit self) @ [nl]];
          f = f @ [''ISOLVER '' @ str_int (isolver self) @ [nl]];
          f = f @ [''NPC '' @ str_int (npc self) @ [nl]];
          f = f @ [''ISCL '' @ str_int (iscl self) @ [nl]];
          f = f @ [''IORD '' @ str_int (iord self) @ [nl]];
          f = (if ncoresm self > 1
               then f @ [''NCORESM '' @ str_int (ncoresm self) @ [nl]] else f);
          f = (if ncoresv self > 1
               then f @ [''NCORESV '' @ str_int (ncoresv self) @ [nl]] else f);
          f = f @ [''DAMP '' @ str_float (damp self) @ [nl]];
          f = f @ [''DAMPT '' @ str_float (dampt self) @ [nl]];
          f = (if npc self > 0
               then f @ [''RELAX '' @ str_float (relax self) @ [nl]] else f);
          f = (if npc self = 3
               then f @ [''IFILL '' @ str_int (ifill self) @ [nl]]
                      @ [''DROPTOL '' @ str_float (droptol self) @ [nl]]
               else f);
          f = f @ [''HCLOSEPKS '' @ str_float (hclose self) @ [nl]];
          f = f @ [''RCLOSEPKS '' @ str_float (rclose self) @ [nl]]
      in case write_norm (l2norm self) of
           Inl e \<Rightarrow> (f, Some e)
         | Inr ws \<Rightarrow>
             (let f = f @ ws;
                  f = f @ [''IPRPKS '' @ str_int (iprpks self) @ [nl]];
                  f = f @ [''MUTPKS '' @ str_int (mutpks self) @ [nl]];
                  f = (if mpi self
                       then (let f = f @ [''PARTOPT '' @ str_int (partopt self) @ [nl]];
                                 f = f @ [''NOVLAPIMPSOL '' @ str_int (novlapimpsol self) @ [nl]];
                                 f = f @ [''STENIMPSOL '' @ str_int (stenimpsol self) @ [nl]];
                                 f = f @ [''VERBOSE '' @ str_int (verbose self) @ [nl]]
                             in if partopt self = 1 OR 2 then f else f)
                       else f);
                  f = f @ [''END'' @ [nl]]
              in (f, None)))"

text \<open>The text of the file, and its lines.\<close>

definition file_text :: "pks \<Rightarrow> string" where
  "file_text self = concat (fst (write_file self))"

definition file_lines :: "pks \<Rightarrow> string list" where
  "file_lines self = lines_of (file_text self)"

text \<open>A written chunk that is exactly one line: no newline but the one at its end.\<close>

definition one_line :: "string \<Rightarrow> bool" where
  "one_line w = (w \<noteq> [] \<and> last w = nl \<and> nl \<notin> set (butlast w))"

text \<open>
  A line that carries the keyword \<open>k\<close>: it starts with \<open>k\<close> and a blank, as
  \<open>"RELAX {0}\n".format(...)\<close> writes it.
\<close>

definition key_line :: "string \<Rightarrow> string \<Rightarrow> bool" where
  "key_line k l = (take (Suc (length k)) l = k @ '' '')"

definition lines_with :: "string \<Rightarrow> pks \<Rightarrow> string list" where
  "lines_with k self = filter (key_line k) (file_lines self)"

text \<open>The two lines of the norm branch, which carry no value.\<close>

definition norm_line :: "string \<Rightarrow> bool" where
  "norm_line l = (l = ''L2NORM'' \<or> l = ''RELATIVE-L2NORM'')"

definition norm_lines :: "pks \<Rightarrow> string list" where
  "norm_lines self = filter norm_line (file_lines self)"

text \<open>
  What the attributes that are printed hold when the object comes from the constructor
  and its float settings are floats: the heading is one comment line (it starts with
  \<open>#\<close>), and the text of a float is made of the characters that \<open>str\<close> of a float
  can give.
\<close>

definition comment_line :: "string \<Rightarrow> bool" where
  "comment_line h = (case h of [] \<Rightarrow> False | c # _ \<Rightarrow> c = CHR ''#'' \<and> nl \<notin> set h)"

definition float_text :: "pyfloat \<Rightarrow> bool" where
  "float_text x =
     (str_float x \<noteq> [] \<and> list_all (\<lambda>c. c \<in> set ''0123456789.e+-infa'') (str_float x))"

definition printable :: "pks \<Rightarrow> bool" where
  "printable self =
     (comment_line (heading self) \<and> float_text (damp self) \<and> float_text (dampt self) \<and>
      float_text (relax self) \<and> float_text (droptol self) \<and> float_text (hclose self) \<and>
      float_text (rclose self))"

text \<open>The norm selection is \<open>None\<close> or a string.\<close>

fun none_or_str :: "pyval \<Rightarrow> bool" where
  "none_or_str PyNone = True"
| "none_or_str (PyStr s) = True"
| "none_or_str _ = False"

section \<open>The constructor\<close>

text \<open>
  The host model: its version, its \<open>verbose\<close> flag, and the list of its packages.
  Modelled from the spec: \<open>_generate_heading\<close> is a method of the ancestor class
  \<open>Package\<close>, which is not among the sources; the heading is a free-form comment line
  generated once at construction from model metadata, and the model carries that line as
  \<open>heading_line\<close>.
\<close>

record model =
  version :: string
  model_verbose :: bool
  heading_line :: string
  packagelist :: "pks list"

definition generate_heading :: "model \<Rightarrow> string" where
  "generate_heading m = heading_line m"

text \<open>
  Modelled from the spec: \<open>add_package\<close> is a method of the host model, which is not
  among the sources; the new instance is appended to the host model's list of active
  packages.
\<close>

definition add_package :: "model \<Rightarrow> pks \<Rightarrow> model" where
  "add_package m p = m\<lparr>packagelist := packagelist m @ [p]\<rparr>"

text \<open>The argument \<open>filenames\<close>: \<open>None\<close>, one string, or a list.\<close>

datatype filenames_arg =
    FilenamesNone
  | FilenamesStr string
  | FilenamesList "string option list"

record args = params +
  arg_extension :: string
  unitnumber :: "int option"
  filenames :: filenames_arg

definition default_args :: args where
  "default_args =
     \<lparr> mxiter = 100, innerit = 50, isolver = 1, npc = 2, iscl = 0, iord = 0,
       ncoresm = 1, ncoresv = 1, damp = PyFloat ''1.0'', dampt = PyFloat ''1.0'',
       relax = PyFloat ''0.97'', ifill = 0, droptol = PyFloat ''0.0'',
       hclose = PyFloat ''0.001'', rclose = PyFloat ''0.1'', l2norm = PyNone,
       iprpks = 0, mutpks = 3, mpi = False, partopt = 0, novlapimpsol = 1,
       stenimpsol = 2, verbose = 0, partdata = PyNone,
       arg_extension = ''pks'', unitnumber = None, filenames = FilenamesNone \<rparr>"

definition ftype :: string where
  "ftype = ''PKS''"

definition defaultunit :: int where
  "defaultunit = 27"

text \<open>
  \<open>str\<close> of a list of strings, as \<open>format\<close> prints \<open>self.name\<close> (the list
  \<open>name\<close> given to the ancestor's constructor): each string in single quotes (none
  of the strings printed here has a character that \<open>repr\<close> would escape).
\<close>

definition repr_str :: "string \<Rightarrow> string" where
  "repr_str s = [CHR 0x27] @ s @ [CHR 0x27]"

fun join :: "string \<Rightarrow> string list \<Rightarrow> string" where
  "join sep [] = []"
| "join sep [x] = x"
| "join sep (x # y # ys) = x @ sep @ join sep (y # ys)"

definition str_list :: "string list \<Rightarrow> string" where
  "str_list xs = ''['' @ join '', '' (map repr_str xs) @ '']''"

text \<open>
  \<open>__init__\<close>: the result and the host model afterwards. The ancestor's constructor
  (not among the sources) sets \<open>self.parent\<close>, extension, name, unit number and file
  names from its arguments; the instance keeps them as they are passed. It runs before
  the version check, and an instance that the check rejects is dropped.
  \<open>filenames[0]\<close> of an empty list raises \<open>IndexError\<close>.
\<close>

definition init :: "model \<Rightarrow> args \<Rightarrow> (error + pks) \<times> model" where
  "init model a =
     (let unitnumber' = (case unitnumber a of None \<Rightarrow> defaultunit | Some u \<Rightarrow> u);
          filenames' = (case filenames a of
                          FilenamesNone \<Rightarrow> [None]
                        | FilenamesStr s \<Rightarrow> [Some s]
                        | FilenamesList fs \<Rightarrow> fs);
          name' = [ftype];
          units = [unitnumber'];
          extra' = [[]]
      in case filenames' of
           [] \<Rightarrow> (Inl IndexError, model)
         | f0 # _ \<Rightarrow>
             (let fname = [f0]
              in if version model = ''mf2k'' \<or> version model = ''mfnwt'' then
                   (Inl (Exception (''Error: cannot use '' @ str_list name' @
                                    '' package with model version '' @ version model)),
                    model)
                 else
                   (let self =
                      \<lparr> mxiter = mxiter a, innerit = innerit a, isolver = isolver a,
                        npc = npc a, iscl = iscl a, iord = iord a, ncoresm = ncoresm a,
                        ncoresv = ncoresv a, damp = damp a, dampt = dampt a,
                        relax = relax a, ifill = ifill a, droptol = droptol a,
                        hclose = hclose a, rclose = rclose a, l2norm = l2norm a,
                        iprpks = iprpks a, mutpks = mutpks a, mpi = mpi a,
                        partopt = partopt a, novlapimpsol = novlapimpsol a,
                        stenimpsol = stenimpsol a, verbose = verbose a,
                        partdata = partdata a,
                        extension = arg_extension a, name = name', unit_number = units,
                        extra = extra', file_name = fname,
                        heading = generate_heading model, url = ''pks.htm'' \<rparr>
                    in (Inr self, add_package model self))))"

section \<open>Loading\<close>

text \<open>
  What \<open>load\<close> touches outside the model: the files that exist (path to content) and
  the text printed to standard output.
\<close>

record world =
  files :: "string \<rightharpoonup> string"
  stdout :: "string list"

text \<open>The argument \<open>f\<close>: a file name, or a handle (an object with \<open>read\<close>).\<close>

datatype fileref = Filename string | FileHandle

text \<open>
  Modelled from the spec: \<open>get_ext_dict_attr\<close> is a method of the host model, which is
  not among the sources. The external-unit dictionary is a lookup from a file-type tag
  to a unit number and a file name; the unit number and file name for the tag are looked
  up, and a tag with no entry gives \<open>None\<close> for both.
\<close>

type_synonym ext_unit_dict = "string \<rightharpoonup> int \<times> string"

definition get_ext_dict_attr :: "ext_unit_dict \<Rightarrow> string \<Rightarrow> int option \<times> string option" where
  "get_ext_dict_attr d filetype =
     (case d filetype of None \<Rightarrow> (None, None) | Some (u, fn) \<Rightarrow> (Some u, Some fn))"

definition warning_text :: string where
  "warning_text =
     ''   Warning: load method not completed. default pks object created.'' @ [nl]"

text \<open>
  \<open>load\<close>: \<open>open(filename, "r")\<close> fails when there is no such file; nothing is read
  from the file, and \<open>cls(model, unitnumber=unitnumber, filenames=filenames)\<close> takes
  every other argument at its default.
\<close>

definition load ::
  "fileref \<Rightarrow> model \<Rightarrow> ext_unit_dict option \<Rightarrow> world \<Rightarrow> (error + pks) \<times> model \<times> world" where
  "load f model ext_unit_dict w =
     (let w = (if model_verbose model
               then w\<lparr>stdout := stdout w @ [''loading pks package file...'' @ [nl]]\<rparr>
               else w);
          opened = (case f of Filename fname \<Rightarrow> files w fname \<noteq> None | FileHandle \<Rightarrow> True)
      in if \<not> opened then (Inl FileNotFoundError, model, w)
         else
           (let w = w\<lparr>stdout := stdout w @ [warning_text]\<rparr>;
                (unitnumber', fname) =
                   (case ext_unit_dict of
                      None \<Rightarrow> (None, None)
                    | Some d \<Rightarrow> get_ext_dict_attr d ftype);
                (r, model') = init model (default_args\<lparr>unitnumber := unitnumber',
                                                        filenames := FilenamesList [fname]\<rparr>)
            in (r, model', w)))"

text \<open>The file \<open>f\<close> can be had: it is a handle, or the name of a file that exists.\<close>

definition readable :: "fileref \<Rightarrow> world \<Rightarrow> bool" where
  "readable f w = (case f of Filename fname \<Rightarrow> files w fname \<noteq> None | FileHandle \<Rightarrow> True)"

section \<open>Example objects\<close>

text \<open>
  A host model of a version the package accepts, the instance that the constructor gives
  for it with every argument at its default, and a world with one file.
\<close>

definition example_model :: model where
  "example_model =
     \<lparr> version = ''mf2005'', model_verbose = False,
       heading_line = ''# PKS package for MODFLOW-2005'', packagelist = [] \<rparr>"

definition example_pks :: pks where
  "example_pks =
     \<lparr> mxiter = 100, innerit = 50, isolver = 1, npc = 2, iscl = 0, iord = 0,
       ncoresm = 1, ncoresv = 1, damp = PyFloat ''1.0'', dampt = PyFloat ''1.0'',
       relax = PyFloat ''0.97'', ifill = 0, droptol = PyFloat ''0.0'',
       hclose = PyFloat ''0.001'', rclose = PyFloat ''0.1'', l2norm = PyNone,
       iprpks = 0, mutpks = 3, mpi = False, partopt = 0, novlapimpsol = 1,
       stenimpsol = 2, verbose = 0, partdata = PyNone,
       extension = ''pks'', name = [''PKS''], unit_number = [27], extra = [[]],
       file_name = [None], heading = ''# PKS package for MODFLOW-2005'',
       url = ''pks.htm'' \<rparr>"

definition example_world :: world where
  "example_world = \<lparr> files = [''test.pks'' \<mapsto> ''MXITER 100''], stdout = [] \<rparr>"

section \<open>Text lemmas\<close>

lemma digit_char_range: "d < 10 \<Longrightarrow> digit_char d \<in> set ''0123456789''"
  unfolding digit_char_def
  by (rule nth_mem) simp

lemma digits_chars: "c \<in> set (digits n) \<Longrightarrow> c \<in> set ''0123456789''"
proof (induction n rule: digits.induct)
  case (1 n)
  show ?case
  proof (cases "n < 10")
    case True
    have "digits n = [digit_char n]" using True by (subst digits.simps) simp
    with "1.prems" have "c = digit_char n" by simp
    then show ?thesis using digit_char_range [OF True] by blast
  next
    case False
    have e: "digits n = digits (n div 10) @ [digit_char (n mod 10)]"
      using False by (subst digits.simps) simp
    have "n mod 10 < 10" by simp
    then have d: "digit_char (n mod 10) \<in> set ''0123456789''" by (rule digit_char_range)
    from "1.prems" have "c \<in> set (digits (n div 10) @ [digit_char (n mod 10)])"
      by (simp only: e)
    then have "c \<in> set (digits (n div 10)) \<or> c = digit_char (n mod 10)" by auto
    then show ?thesis
    proof
      assume "c \<in> set (digits (n div 10))"
      then show ?thesis using "1.IH" False by blast
    next
      assume "c = digit_char (n mod 10)"
      then show ?thesis using d by blast
    qed
  qed
qed

lemma str_int_chars: "c \<in> set (str_int i) \<Longrightarrow> c \<in> set ''-0123456789''"
proof -
  assume a: "c \<in> set (str_int i)"
  have "c = CHR ''-'' \<or> (\<exists>n. c \<in> set (digits n))"
    using a unfolding str_int_def by (cases "i < 0") auto
  then have "c = CHR ''-'' \<or> c \<in> set ''0123456789''"
    using digits_chars by blast
  then show ?thesis by simp
qed

lemma str_int_no_nl: "nl \<notin> set (str_int i)"
proof
  assume "nl \<in> set (str_int i)"
  then have "nl \<in> set ''-0123456789''" by (rule str_int_chars)
  then show False by simp
qed

lemma float_text_no_nl: "float_text x \<Longrightarrow> nl \<notin> set (str_float x)"
proof
  assume f: "float_text x" and n: "nl \<in> set (str_float x)"
  from f have "\<forall>c\<in>set (str_float x). c \<in> set ''0123456789.e+-infa''"
    unfolding float_text_def list_all_iff by blast
  with n have "nl \<in> set ''0123456789.e+-infa''" by blast
  then show False by simp
qed

lemma comment_line_no_nl: "comment_line h \<Longrightarrow> nl \<notin> set h"
  unfolding comment_line_def by (cases h) simp_all

lemma split_lines_line:
  "nl \<notin> set l \<Longrightarrow> split_lines cur (l @ nl # rest) = (cur @ l) # split_lines [] rest"
  by (induction l arbitrary: cur) auto

lemma lines_of_chunks:
  "\<forall>w\<in>set ws. one_line w \<Longrightarrow> lines_of (concat ws) = map butlast ws"
proof (induction ws)
  case Nil
  show ?case by (simp add: lines_of_def)
next
  case (Cons w ws)
  define l where "l = butlast w"
  from Cons.prems have ow: "one_line w" by simp
  from ow have l: "nl \<notin> set l"
    unfolding one_line_def l_def by simp
  from ow have "w \<noteq> []" and "last w = nl"
    unfolding one_line_def by simp_all
  then have w: "w = l @ [nl]"
    unfolding l_def using append_butlast_last_id [of w] by simp
  have "lines_of (concat (w # ws)) = split_lines [] (l @ nl # concat ws)"
    by (simp add: lines_of_def w)
  also have "\<dots> = l # split_lines [] (concat ws)"
    using split_lines_line [OF l, of "[]"] by simp
  also have "split_lines [] (concat ws) = map butlast ws"
    using Cons.IH Cons.prems by (simp add: lines_of_def)
  finally show ?case by (simp add: w)
qed

section \<open>The shape of the written file\<close>

lemma write_norm_cases:
  "write_norm v = Inl AttributeError \<and> \<not> none_or_str v
   \<or> write_norm v = Inr []
   \<or> write_norm v = Inr [''L2NORM'' @ [nl]]
   \<or> write_norm v = Inr [''RELATIVE-L2NORM'' @ [nl]]"
  by (cases v) (simp_all add: write_norm_def)

lemma write_norm_text:
  "none_or_str v \<Longrightarrow>
     write_norm v = Inr []
     \<or> write_norm v = Inr [''L2NORM'' @ [nl]]
     \<or> write_norm v = Inr [''RELATIVE-L2NORM'' @ [nl]]"
  by (cases v) (simp_all add: write_norm_def)

lemma write_norm_other: "\<not> none_or_str v \<Longrightarrow> write_norm v = Inl AttributeError"
  by (cases v) (simp_all add: write_norm_def)

lemma write_file_chunks:
  "fst (write_file c) =
     [heading c @ [nl],
      ''MXITER '' @ str_int (mxiter c) @ [nl],
      ''INNERIT '' @ str_int (innerit c) @ [nl],
      ''ISOLVER '' @ str_int (isolver c) @ [nl],
      ''NPC '' @ str_int (npc c) @ [nl],
      ''ISCL '' @ str_int (iscl c) @ [nl],
      ''IORD '' @ str_int (iord c) @ [nl]]
     @ (if 1 < ncoresm c then [''NCORESM '' @ str_int (ncoresm c) @ [nl]] else [])
     @ (if 1 < ncoresv c then [''NCORESV '' @ str_int (ncoresv c) @ [nl]] else [])
     @ [''DAMP '' @ str_float (damp c) @ [nl],
        ''DAMPT '' @ str_float (dampt c) @ [nl]]
     @ (if 0 < npc c then [''RELAX '' @ str_float (relax c) @ [nl]] else [])
     @ (if npc c = 3 then [''IFILL '' @ str_int (ifill c) @ [nl],
                           ''DROPTOL '' @ str_float (droptol c) @ [nl]] else [])
     @ [''HCLOSEPKS '' @ str_float (hclose c) @ [nl],
        ''RCLOSEPKS '' @ str_float (rclose c) @ [nl]]
     @ (case write_norm (l2norm c) of
          Inl e \<Rightarrow> []
        | Inr ws \<Rightarrow>
            ws @ [''IPRPKS '' @ str_int (iprpks c) @ [nl],
                  ''MUTPKS '' @ str_int (mutpks c) @ [nl]]
            @ (if mpi c then [''PARTOPT '' @ str_int (partopt c) @ [nl],
                              ''NOVLAPIMPSOL '' @ str_int (novlapimpsol c) @ [nl],
                              ''STENIMPSOL '' @ str_int (stenimpsol c) @ [nl],
                              ''VERBOSE '' @ str_int (verbose c) @ [nl]] else [])
            @ [''END'' @ [nl]])"
  unfolding write_file_def Let_def
  by (simp split: sum.split)

lemma write_file_error:
  "snd (write_file c) = (case write_norm (l2norm c) of Inl e \<Rightarrow> Some e | Inr ws \<Rightarrow> None)"
  unfolding write_file_def Let_def
  by (simp split: sum.split)

lemma chunks_one_line:
  assumes "printable c"
  shows "\<forall>w\<in>set (fst (write_file c)). one_line w"
proof -
  from assms have h: "nl \<notin> set (heading c)"
    and f: "nl \<notin> set (str_float (damp c))" "nl \<notin> set (str_float (dampt c))"
      "nl \<notin> set (str_float (relax c))" "nl \<notin> set (str_float (droptol c))"
      "nl \<notin> set (str_float (hclose c))" "nl \<notin> set (str_float (rclose c))"
    unfolding printable_def by (simp_all add: comment_line_no_nl float_text_no_nl)
  show ?thesis
    using write_norm_cases [of "l2norm c"] h f
    by (auto simp add: write_file_chunks one_line_def str_int_no_nl butlast_append)
qed

lemma file_lines_butlast:
  "printable c \<Longrightarrow> file_lines c = map butlast (fst (write_file c))"
  unfolding file_lines_def file_text_def
  by (rule lines_of_chunks) (rule chunks_one_line)

lemma file_lines_shape:
  assumes "printable c"
  shows "file_lines c =
     heading c #
     ([''MXITER '' @ str_int (mxiter c),
       ''INNERIT '' @ str_int (innerit c),
       ''ISOLVER '' @ str_int (isolver c),
       ''NPC '' @ str_int (npc c),
       ''ISCL '' @ str_int (iscl c),
       ''IORD '' @ str_int (iord c)]
      @ (if 1 < ncoresm c then [''NCORESM '' @ str_int (ncoresm c)] else [])
      @ (if 1 < ncoresv c then [''NCORESV '' @ str_int (ncoresv c)] else [])
      @ [''DAMP '' @ str_float (damp c),
         ''DAMPT '' @ str_float (dampt c)]
      @ (if 0 < npc c then [''RELAX '' @ str_float (relax c)] else [])
      @ (if npc c = 3 then [''IFILL '' @ str_int (ifill c),
                            ''DROPTOL '' @ str_float (droptol c)] else [])
      @ [''HCLOSEPKS '' @ str_float (hclose c),
         ''RCLOSEPKS '' @ str_float (rclose c)])
     @ (case write_norm (l2norm c) of
          Inl e \<Rightarrow> []
        | Inr ws \<Rightarrow>
            map butlast ws
            @ ([''IPRPKS '' @ str_int (iprpks c),
                ''MUTPKS '' @ str_int (mutpks c)]
               @ (if mpi c then [''PARTOPT '' @ str_int (partopt c),
                                 ''NOVLAPIMPSOL '' @ str_int (novlapimpsol c),
                                 ''STENIMPSOL '' @ str_int (stenimpsol c),
                                 ''VERBOSE '' @ str_int (verbose c)] else []))
            @ [''END''])"
  unfolding file_lines_butlast [OF assms] write_file_chunks
  by (simp add: butlast_append split: sum.split)

section \<open>Lines with a keyword\<close>

lemma comment_not_key:
  "comment_line h \<Longrightarrow> k \<noteq> [] \<Longrightarrow> hd k \<noteq> CHR ''#'' \<Longrightarrow> \<not> key_line k h"
  unfolding comment_line_def key_line_def
  by (cases h; cases k) simp_all

lemma comment_not_norm: "comment_line h \<Longrightarrow> \<not> norm_line h"
  unfolding comment_line_def norm_line_def
  by (cases h) auto

lemma key_line_blank: "key_line k l \<Longrightarrow> CHR '' '' \<in> set l"
proof -
  assume "key_line k l"
  then have "take (Suc (length k)) l = k @ '' ''" unfolding key_line_def .
  then have "CHR '' '' \<in> set (take (Suc (length k)) l)" by simp
  then show ?thesis by (rule in_set_takeD)
qed

lemma no_key_in_norm_chunks:
  assumes "write_norm v = Inr ws"
  shows "filter (key_line k) (map butlast ws) = []"
proof -
  have a: "\<not> key_line k ''L2NORM''" "\<not> key_line k ''RELATIVE-L2NORM''"
    by (auto dest: key_line_blank)
  from assms write_norm_cases [of v]
  have "ws = [] \<or> ws = [''L2NORM'' @ [nl]] \<or> ws = [''RELATIVE-L2NORM'' @ [nl]]"
    by auto
  with a show ?thesis by auto
qed

lemma no_key_in_end: "filter (key_line k) [''END''] = []"
  by (auto dest: key_line_blank)

lemma key_lines_of_tail:
  "filter (key_line k)
     (case write_norm v of Inl e \<Rightarrow> [] | Inr ws \<Rightarrow> map butlast ws @ T @ [''END''])
   = (if none_or_str v then filter (key_line k) T else [])"
proof (cases "none_or_str v")
  case True
  then obtain ws where w: "write_norm v = Inr ws"
    using write_norm_text [of v] by blast
  show ?thesis
    using True no_key_in_norm_chunks [OF w, of k] no_key_in_end [of k]
    by (simp only: w sum.case filter_append if_True append_Nil append_Nil2)
next
  case False
  then show ?thesis by (simp add: write_norm_other)
qed

lemma key_lines_after_heading:
  "comment_line h \<Longrightarrow> k \<noteq> [] \<Longrightarrow> hd k \<noteq> CHR ''#'' \<Longrightarrow>
     filter (key_line k) (h # ls) = filter (key_line k) ls"
  using comment_not_key [of h k] by simp

text \<open>
  The lines with a keyword are found in the body of the file: the fixed lines and the
  gated ones before the norm line, and the lines after it when the norm branch did not
  fail.
\<close>

lemma lines_with_key:
  assumes "printable c" and "k \<noteq> []" and "hd k \<noteq> CHR ''#''"
  shows "lines_with k c =
     filter (key_line k)
       ([''MXITER '' @ str_int (mxiter c),
         ''INNERIT '' @ str_int (innerit c),
         ''ISOLVER '' @ str_int (isolver c),
         ''NPC '' @ str_int (npc c),
         ''ISCL '' @ str_int (iscl c),
         ''IORD '' @ str_int (iord c)]
        @ (if 1 < ncoresm c then [''NCORESM '' @ str_int (ncoresm c)] else [])
        @ (if 1 < ncoresv c then [''NCORESV '' @ str_int (ncoresv c)] else [])
        @ [''DAMP '' @ str_float (damp c),
           ''DAMPT '' @ str_float (dampt c)]
        @ (if 0 < npc c then [''RELAX '' @ str_float (relax c)] else [])
        @ (if npc c = 3 then [''IFILL '' @ str_int (ifill c),
                              ''DROPTOL '' @ str_float (droptol c)] else [])
        @ [''HCLOSEPKS '' @ str_float (hclose c),
           ''RCLOSEPKS '' @ str_float (rclose c)])
     @ (if none_or_str (l2norm c) then
          filter (key_line k)
            ([''IPRPKS '' @ str_int (iprpks c),
              ''MUTPKS '' @ str_int (mutpks c)]
             @ (if mpi c then [''PARTOPT '' @ str_int (partopt c),
                               ''NOVLAPIMPSOL '' @ str_int (novlapimpsol c),
                               ''STENIMPSOL '' @ str_int (stenimpsol c),
                               ''VERBOSE '' @ str_int (verbose c)] else []))
        else [])"
proof -
  from assms(1) have h: "comment_line (heading c)" unfolding printable_def by simp
  show ?thesis
    unfolding lines_with_def file_lines_shape [OF assms(1)]
      key_lines_after_heading [OF h assms(2,3)]
    by (subst filter_append) (simp only: key_lines_of_tail)
qed

section \<open>Claims about the written file\<close>

lemma example_printable: "printable example_pks"
  by (simp add: printable_def example_pks_def comment_line_def float_text_def)

lemma key_line_exists: "(\<exists>l\<in>set (file_lines c). key_line k l) \<longleftrightarrow> lines_with k c \<noteq> []"
  unfolding lines_with_def by (simp add: filter_empty_conv)

text \<open>
  Claim C1. For every fully populated package object (its heading is a comment line and
  its floats print as floats), the written file has a \<open>RELAX\<close> line if and only if
  \<open>npc\<close> is greater than 0: for \<open>npc \<le> 0\<close> there is no such line, and for
  \<open>npc > 0\<close> there is exactly one, \<open>RELAX\<close> followed by the value of \<open>relax\<close>.
\<close>

theorem relax_line_iff_npc_positive:
  assumes "printable c"
  shows "((\<exists>l\<in>set (file_lines c). key_line ''RELAX'' l) \<longleftrightarrow> 0 < npc c)
       \<and> (npc c \<le> 0 \<longrightarrow> lines_with ''RELAX'' c = [])
       \<and> (0 < npc c \<longrightarrow> lines_with ''RELAX'' c = [''RELAX '' @ str_float (relax c)])"
proof -
  have r: "lines_with ''RELAX'' c = (if 0 < npc c then [''RELAX '' @ str_float (relax c)] else [])"
    by (subst lines_with_key [OF assms]) (simp_all add: key_line_def)
  with key_line_exists [of c "''RELAX''"] show ?thesis by simp
qed

theorem relax_line_iff_npc_positive_witness:
  "printable example_pks \<and> lines_with ''RELAX'' example_pks = [''RELAX 0.97'']
   \<and> lines_with ''RELAX'' (example_pks\<lparr>npc := 0\<rparr>) = []"
proof -
  have p: "printable example_pks" by (rule example_printable)
  have q: "printable (example_pks\<lparr>npc := 0\<rparr>)"
    using example_printable by (simp add: printable_def)
  show ?thesis
    using p relax_line_iff_npc_positive [OF p] relax_line_iff_npc_positive [OF q]
    by (simp add: example_pks_def)
qed

lemma in_the_middle: "\<exists>pre post. h # (a @ b @ c @ d @ e @ x @ f) @ g = pre @ x @ post"
proof -
  have "h # (a @ b @ c @ d @ e @ x @ f) @ g = (h # a @ b @ c @ d @ e) @ x @ (f @ g)" by simp
  then show ?thesis by blast
qed

text \<open>
  Claim C2. For every fully populated package object, the written file has an
  \<open>IFILL\<close> line and a \<open>DROPTOL\<close> line if and only if \<open>npc\<close> equals 3; when
  present they are written together, \<open>IFILL\<close> immediately followed by \<open>DROPTOL\<close>,
  and for \<open>npc \<noteq> 3\<close> neither line appears.
\<close>

theorem ifill_droptol_iff_npc_3:
  assumes "printable c"
  shows "((\<exists>l\<in>set (file_lines c). key_line ''IFILL'' l) \<longleftrightarrow> npc c = 3)
       \<and> ((\<exists>l\<in>set (file_lines c). key_line ''DROPTOL'' l) \<longleftrightarrow> npc c = 3)
       \<and> (npc c \<noteq> 3 \<longrightarrow> lines_with ''IFILL'' c = [] \<and> lines_with ''DROPTOL'' c = [])
       \<and> (npc c = 3 \<longrightarrow>
            lines_with ''IFILL'' c = [''IFILL '' @ str_int (ifill c)]
          \<and> lines_with ''DROPTOL'' c = [''DROPTOL '' @ str_float (droptol c)]
          \<and> (\<exists>pre post. file_lines c =
                pre @ [''IFILL '' @ str_int (ifill c), ''DROPTOL '' @ str_float (droptol c)] @ post))"
proof -
  have i: "lines_with ''IFILL'' c = (if npc c = 3 then [''IFILL '' @ str_int (ifill c)] else [])"
    by (subst lines_with_key [OF assms]) (simp_all add: key_line_def)
  have d: "lines_with ''DROPTOL'' c =
             (if npc c = 3 then [''DROPTOL '' @ str_float (droptol c)] else [])"
    by (subst lines_with_key [OF assms]) (simp_all add: key_line_def)
  have m: "\<exists>pre post. file_lines c =
             pre @ [''IFILL '' @ str_int (ifill c), ''DROPTOL '' @ str_float (droptol c)] @ post"
    if "npc c = 3"
    unfolding file_lines_shape [OF assms] if_P [OF that]
    by (rule in_the_middle)
  from i d m key_line_exists [of c "''IFILL''"] key_line_exists [of c "''DROPTOL''"]
  show ?thesis by simp
qed

theorem ifill_droptol_iff_npc_3_witness:
  "printable (example_pks\<lparr>npc := 3\<rparr>)
   \<and> lines_with ''IFILL'' (example_pks\<lparr>npc := 3\<rparr>) = [''IFILL 0'']
   \<and> lines_with ''DROPTOL'' (example_pks\<lparr>npc := 3\<rparr>) = [''DROPTOL 0.0'']
   \<and> lines_with ''IFILL'' example_pks = []"
proof -
  have p: "printable example_pks" by (rule example_printable)
  have q: "printable (example_pks\<lparr>npc := 3\<rparr>)"
    using example_printable by (simp add: printable_def)
  have z: "str_int 0 = ''0''" by code_simp
  show ?thesis
    using q ifill_droptol_iff_npc_3 [OF p] ifill_droptol_iff_npc_3 [OF q]
    by (simp add: example_pks_def z)
qed

text \<open>
  Claim C7. For every fully populated package object, the written file has an
  \<open>NCORESM\<close> line if and only if \<open>ncoresm > 1\<close> and an \<open>NCORESV\<close> line if and only
  if \<open>ncoresv > 1\<close>; when both counts are at most 1 (as the defaults are), neither line
  appears.
\<close>

theorem core_lines_iff_more_than_one:
  assumes "printable c"
  shows "((\<exists>l\<in>set (file_lines c). key_line ''NCORESM'' l) \<longleftrightarrow> 1 < ncoresm c)
       \<and> ((\<exists>l\<in>set (file_lines c). key_line ''NCORESV'' l) \<longleftrightarrow> 1 < ncoresv c)
       \<and> lines_with ''NCORESM'' c =
           (if 1 < ncoresm c then [''NCORESM '' @ str_int (ncoresm c)] else [])
       \<and> lines_with ''NCORESV'' c =
           (if 1 < ncoresv c then [''NCORESV '' @ str_int (ncoresv c)] else [])
       \<and> (ncoresm c \<le> 1 \<and> ncoresv c \<le> 1 \<longrightarrow>
            lines_with ''NCORESM'' c = [] \<and> lines_with ''NCORESV'' c = [])"
proof -
  have m: "lines_with ''NCORESM'' c =
             (if 1 < ncoresm c then [''NCORESM '' @ str_int (ncoresm c)] else [])"
    by (subst lines_with_key [OF assms]) (simp_all add: key_line_def)
  have v: "lines_with ''NCORESV'' c =
             (if 1 < ncoresv c then [''NCORESV '' @ str_int (ncoresv c)] else [])"
    by (subst lines_with_key [OF assms]) (simp_all add: key_line_def)
  from m v key_line_exists [of c "''NCORESM''"] key_line_exists [of c "''NCORESV''"]
  show ?thesis by simp
qed

theorem core_lines_iff_more_than_one_witness:
  "printable example_pks
   \<and> lines_with ''NCORESM'' example_pks = [] \<and> lines_with ''NCORESV'' example_pks = []
   \<and> lines_with ''NCORESM'' (example_pks\<lparr>ncoresm := 4\<rparr>) = [''NCORESM 4'']"
proof -
  have p: "printable example_pks" by (rule example_printable)
  have q: "printable (example_pks\<lparr>ncoresm := 4\<rparr>)"
    using example_printable by (simp add: printable_def)
  have z: "str_int 4 = ''4''" by code_simp
  show ?thesis
    using p core_lines_iff_more_than_one [OF p] core_lines_iff_more_than_one [OF q]
    by (simp add: example_pks_def z)
qed

section \<open>Claims about the norm line\<close>

lemma norm_lines_shape:
  assumes "printable c"
  shows "norm_lines c =
           (case write_norm (l2norm c) of Inl e \<Rightarrow> [] | Inr ws \<Rightarrow> map butlast ws)"
proof -
  from assms have "comment_line (heading c)" unfolding printable_def by simp
  then have h: "\<not> norm_line (heading c)" by (rule comment_not_norm)
  show ?thesis
    unfolding norm_lines_def file_lines_shape [OF assms]
    using write_norm_cases [of "l2norm c"] h
    by (auto simp add: norm_line_def)
qed

lemma lower_examples:
  "lower ''L2NORM'' = ''l2norm''" "lower ''RL2Norm'' = ''rl2norm''" "lower ''2'' = ''2''"
  "lower ''l1norm'' = ''l1norm''"
  by code_simp+

lemma write_file_norm_only:
  assumes "write_norm (l2norm c) = write_norm v"
  shows "write_file (c\<lparr>l2norm := v\<rparr>) = write_file c"
proof (rule prod_eqI)
  show "fst (write_file (c\<lparr>l2norm := v\<rparr>)) = fst (write_file c)"
    unfolding write_file_chunks using assms by (simp cong: sum.case_cong)
  show "snd (write_file (c\<lparr>l2norm := v\<rparr>)) = snd (write_file c)"
    unfolding write_file_error using assms by simp
qed

text \<open>
  Claim C3. For every fully populated package object the written file has at most one
  norm line, decided by \<open>l2norm\<close>: a string that in lower case is \<open>l2norm\<close>, or the
  string \<open>1\<close>, gives exactly the one line \<open>L2NORM\<close>; otherwise a string that in
  lower case is \<open>rl2norm\<close>, or the string \<open>2\<close>, gives exactly the one line
  \<open>RELATIVE-L2NORM\<close>; \<open>None\<close> gives no norm line.
\<close>

theorem norm_line_choice:
  assumes "printable c"
  shows "length (norm_lines c) \<le> 1
       \<and> (\<forall>s. l2norm c = PyStr s \<and> (lower s = ''l2norm'' \<or> s = ''1'')
              \<longrightarrow> norm_lines c = [''L2NORM''])
       \<and> (\<forall>s. l2norm c = PyStr s \<and> \<not> (lower s = ''l2norm'' \<or> s = ''1'')
                \<and> (lower s = ''rl2norm'' \<or> s = ''2'')
              \<longrightarrow> norm_lines c = [''RELATIVE-L2NORM''])
       \<and> (l2norm c = PyNone \<longrightarrow> norm_lines c = [])"
proof -
  have a: "length (norm_lines c) \<le> 1"
    unfolding norm_lines_shape [OF assms]
    using write_norm_cases [of "l2norm c"] by auto
  have b: "norm_lines c = [''L2NORM'']"
    if "l2norm c = PyStr s" and "lower s = ''l2norm'' \<or> s = ''1''" for s
    unfolding norm_lines_shape [OF assms] using that by (auto simp: write_norm_def)
  have d: "norm_lines c = [''RELATIVE-L2NORM'']"
    if "l2norm c = PyStr s" and "\<not> (lower s = ''l2norm'' \<or> s = ''1'')"
      and "lower s = ''rl2norm'' \<or> s = ''2''" for s
    unfolding norm_lines_shape [OF assms] using that by (auto simp: write_norm_def)
  have e: "norm_lines c = []" if "l2norm c = PyNone"
    unfolding norm_lines_shape [OF assms] using that by (simp add: write_norm_def)
  from a b d e show ?thesis by blast
qed

theorem norm_line_choice_witness:
  "printable (example_pks\<lparr>l2norm := PyStr ''L2NORM''\<rparr>)
   \<and> norm_lines (example_pks\<lparr>l2norm := PyStr ''L2NORM''\<rparr>) = [''L2NORM'']
   \<and> norm_lines (example_pks\<lparr>l2norm := PyStr ''1''\<rparr>) = [''L2NORM'']
   \<and> norm_lines (example_pks\<lparr>l2norm := PyStr ''RL2Norm''\<rparr>) = [''RELATIVE-L2NORM'']
   \<and> norm_lines (example_pks\<lparr>l2norm := PyStr ''2''\<rparr>) = [''RELATIVE-L2NORM'']
   \<and> norm_lines example_pks = []"
proof -
  have p: "printable (example_pks\<lparr>l2norm := v\<rparr>)" for v
    using example_printable by (simp add: printable_def)
  have q: "l2norm example_pks = PyNone" by (simp add: example_pks_def)
  show ?thesis
    using p [of "PyStr ''L2NORM''"] q
      norm_line_choice [OF p [of "PyStr ''L2NORM''"]]
      norm_line_choice [OF p [of "PyStr ''1''"]]
      norm_line_choice [OF p [of "PyStr ''RL2Norm''"]]
      norm_line_choice [OF p [of "PyStr ''2''"]]
      norm_line_choice [OF example_printable]
    by (simp add: lower_examples)
qed

text \<open>
  Claim C6, as stated, fails: a norm selection that is set to a value which is none of
  the recognised tokens need not be skipped without an error. With the integer 5 in
  \<open>l2norm\<close>, \<open>write_file\<close> ends with \<open>AttributeError\<close>.
\<close>

theorem unknown_norm_value_counterexample:
  "snd (write_file (example_pks\<lparr>l2norm := PyInt 5\<rparr>)) = Some AttributeError"
  unfolding write_file_error by (simp add: write_norm_def)

text \<open>
  Claim C6, amended. For every package object whose \<open>l2norm\<close> is a string other than
  the recognised tokens (in lower case neither \<open>l2norm\<close> nor \<open>rl2norm\<close>, and neither
  the string \<open>1\<close> nor \<open>2\<close>), \<open>write_file\<close> raises no error and writes no norm line:
  it writes exactly what it writes when \<open>l2norm\<close> is \<open>None\<close>.
\<close>

theorem unknown_norm_text_skipped:
  assumes "l2norm c = PyStr s"
    and "lower s \<noteq> ''l2norm''" and "s \<noteq> ''1''"
    and "lower s \<noteq> ''rl2norm''" and "s \<noteq> ''2''"
  shows "snd (write_file c) = None
       \<and> write_file c = write_file (c\<lparr>l2norm := PyNone\<rparr>)
       \<and> (printable c \<longrightarrow> norm_lines c = [])"
proof -
  have w: "write_norm (l2norm c) = Inr []"
    using assms by (simp add: write_norm_def)
  have n: "write_norm PyNone = Inr []" by (simp add: write_norm_def)
  have a: "snd (write_file c) = None"
    unfolding write_file_error by (simp add: w)
  have b: "write_file c = write_file (c\<lparr>l2norm := PyNone\<rparr>)"
    by (rule write_file_norm_only [symmetric]) (simp add: w n)
  have d: "norm_lines c = []" if "printable c"
    unfolding norm_lines_shape [OF that] by (simp add: w)
  from a b d show ?thesis by blast
qed

theorem unknown_norm_text_skipped_witness:
  "snd (write_file (example_pks\<lparr>l2norm := PyStr ''l1norm''\<rparr>)) = None
   \<and> write_file (example_pks\<lparr>l2norm := PyStr ''l1norm''\<rparr>) = write_file example_pks
   \<and> norm_lines (example_pks\<lparr>l2norm := PyStr ''l1norm''\<rparr>) = []"
proof -
  have p: "printable (example_pks\<lparr>l2norm := PyStr ''l1norm''\<rparr>)"
    using example_printable by (simp add: printable_def)
  have e: "(example_pks\<lparr>l2norm := PyStr ''l1norm''\<rparr>)\<lparr>l2norm := PyNone\<rparr> = example_pks"
    by (simp add: example_pks_def)
  have h: "l2norm (example_pks\<lparr>l2norm := PyStr ''l1norm''\<rparr>) = PyStr ''l1norm''"
    "lower ''l1norm'' \<noteq> ''l2norm''" "''l1norm'' \<noteq> ''1''"
    "lower ''l1norm'' \<noteq> ''rl2norm''" "''l1norm'' \<noteq> ''2''"
    by (simp_all add: lower_examples)
  from unknown_norm_text_skipped [OF h] p show ?thesis
    unfolding e by blast
qed

text \<open>
  Claim C10. When \<open>l2norm\<close> is neither \<open>None\<close> nor a string (the integer 1 or 2, for
  example), \<open>write_file\<close> raises an error in the norm branch, where the field is put to
  lower case: no norm line is written, and nothing is written after the
  \<open>RCLOSEPKS\<close> line. \<open>write_file\<close> ends without an error exactly when \<open>l2norm\<close> is
  \<open>None\<close> or a string.
\<close>

theorem norm_not_text_raises:
  "(snd (write_file c) = None \<longleftrightarrow> none_or_str (l2norm c))
   \<and> (\<not> none_or_str (l2norm c) \<longrightarrow>
         snd (write_file c) = Some AttributeError
       \<and> last (fst (write_file c)) = ''RCLOSEPKS '' @ str_float (rclose c) @ [nl]
       \<and> (printable c \<longrightarrow> norm_lines c = []))"
proof -
  have a: "snd (write_file c) = None \<longleftrightarrow> none_or_str (l2norm c)"
    unfolding write_file_error
    using write_norm_text [of "l2norm c"] write_norm_other [of "l2norm c"]
    by (cases "none_or_str (l2norm c)") auto
  have b: "snd (write_file c) = Some AttributeError" if "\<not> none_or_str (l2norm c)"
    unfolding write_file_error by (simp add: write_norm_other [OF that])
  have d: "last (fst (write_file c)) = ''RCLOSEPKS '' @ str_float (rclose c) @ [nl]"
    if "\<not> none_or_str (l2norm c)"
    unfolding write_file_chunks by (simp add: write_norm_other [OF that])
  have e: "norm_lines c = []" if "\<not> none_or_str (l2norm c)" and "printable c"
    unfolding norm_lines_shape [OF that(2)] by (simp add: write_norm_other [OF that(1)])
  from a b d e show ?thesis by blast
qed

theorem norm_not_text_raises_witness:
  "snd (write_file (example_pks\<lparr>l2norm := PyInt 1\<rparr>)) = Some AttributeError
   \<and> snd (write_file (example_pks\<lparr>l2norm := PyInt 2\<rparr>)) = Some AttributeError
   \<and> last (fst (write_file (example_pks\<lparr>l2norm := PyInt 1\<rparr>))) = ''RCLOSEPKS 0.1'' @ [nl]
   \<and> norm_lines (example_pks\<lparr>l2norm := PyInt 1\<rparr>) = []
   \<and> snd (write_file (example_pks\<lparr>l2norm := PyStr ''1''\<rparr>)) = None"
proof -
  have p: "printable (example_pks\<lparr>l2norm := v\<rparr>)" for v
    using example_printable by (simp add: printable_def)
  show ?thesis
    using norm_not_text_raises [of "example_pks\<lparr>l2norm := PyInt 1\<rparr>"]
      norm_not_text_raises [of "example_pks\<lparr>l2norm := PyInt 2\<rparr>"]
      norm_not_text_raises [of "example_pks\<lparr>l2norm := PyStr ''1''\<rparr>"]
      p [of "PyInt 1"]
    by (simp add: example_pks_def)
qed

section \<open>Claims about the end of the file\<close>

lemma last_line:
  assumes "nl \<notin> set l"
  shows "split_lines cur (xs @ nl # l @ [nl]) \<noteq> []
       \<and> last (split_lines cur (xs @ nl # l @ [nl])) = l"
proof (induction xs arbitrary: cur)
  case Nil
  have "split_lines [] (l @ nl # []) = ([] @ l) # split_lines [] []"
    using assms by (rule split_lines_line)
  then show ?case by simp
next
  case (Cons x xs)
  show ?case
  proof (cases "x = nl")
    case True
    then show ?thesis using Cons.IH [of "[]"] by simp
  next
    case False
    then show ?thesis using Cons.IH [of "cur @ [x]"] by simp
  qed
qed

lemma ends_with_verbose:
  "\<exists>X. a @ b @ d @ e @ f @ g @ h @ (ws @ [i, j] @ [k, l, n, p] @ [z]) = X @ [p, z]"
proof -
  have "a @ b @ d @ e @ f @ g @ h @ (ws @ [i, j] @ [k, l, n, p] @ [z])
          = (a @ b @ d @ e @ f @ g @ h @ ws @ [i, j, k, l, n]) @ [p, z]"
    by simp
  then show ?thesis by blast
qed

lemma ends_with_mutpks:
  "\<exists>X. a @ b @ d @ e @ f @ g @ h @ (ws @ [i, j] @ [] @ [z]) = X @ [j, z]"
proof -
  have "a @ b @ d @ e @ f @ g @ h @ (ws @ [i, j] @ [] @ [z])
          = (a @ b @ d @ e @ f @ g @ h @ ws @ [i]) @ [j, z]"
    by simp
  then show ?thesis by blast
qed

lemma file_text_end:
  assumes "none_or_str (l2norm c)"
  shows "\<exists>pre. file_text c = pre @ nl # ''END'' @ [nl]"
proof -
  from assms obtain ws where w: "write_norm (l2norm c) = Inr ws"
    using write_norm_text [of "l2norm c"] by blast
  show ?thesis
  proof (cases "mpi c")
    case True
    have "\<exists>X. fst (write_file c) =
            X @ [''VERBOSE '' @ str_int (verbose c) @ [nl], ''END'' @ [nl]]"
      unfolding write_file_chunks w sum.case if_P [OF True]
      by (rule ends_with_verbose)
    then obtain X where "fst (write_file c) =
            X @ [''VERBOSE '' @ str_int (verbose c) @ [nl], ''END'' @ [nl]]" by blast
    then have "file_text c = (concat X @ ''VERBOSE '' @ str_int (verbose c)) @ nl # ''END'' @ [nl]"
      unfolding file_text_def by simp
    then show ?thesis by blast
  next
    case False
    have "\<exists>X. fst (write_file c) =
            X @ [''MUTPKS '' @ str_int (mutpks c) @ [nl], ''END'' @ [nl]]"
      unfolding write_file_chunks w sum.case if_not_P [OF False]
      by (rule ends_with_mutpks)
    then obtain X where "fst (write_file c) =
            X @ [''MUTPKS '' @ str_int (mutpks c) @ [nl], ''END'' @ [nl]]" by blast
    then have "file_text c = (concat X @ ''MUTPKS '' @ str_int (mutpks c)) @ nl # ''END'' @ [nl]"
      unfolding file_text_def by simp
    then show ?thesis by blast
  qed
qed

text \<open>
  Claim C9, amended. For every package object whose \<open>l2norm\<close> is \<open>None\<close> or a
  string, \<open>write_file\<close> ends without an error, and the text it writes ends with a
  last line that is exactly \<open>END\<close>: nothing follows it.
\<close>

theorem file_ends_with_end_line:
  assumes "none_or_str (l2norm c)"
  shows "snd (write_file c) = None
       \<and> (\<exists>pre. file_text c = pre @ nl # ''END'' @ [nl])
       \<and> file_lines c \<noteq> []
       \<and> last (file_lines c) = ''END''"
proof -
  from assms obtain ws where w: "write_norm (l2norm c) = Inr ws"
    using write_norm_text [of "l2norm c"] by blast
  have a: "snd (write_file c) = None"
    unfolding write_file_error by (simp add: w)
  from file_text_end [OF assms] obtain pre where t: "file_text c = pre @ nl # ''END'' @ [nl]"
    by blast
  have "nl \<notin> set ''END''" by simp
  from last_line [OF this, of "[]" pre]
  have "file_lines c \<noteq> [] \<and> last (file_lines c) = ''END''"
    unfolding file_lines_def lines_of_def t .
  with a t show ?thesis by blast
qed

theorem file_ends_with_end_line_witness:
  "none_or_str (l2norm example_pks)
   \<and> snd (write_file example_pks) = None \<and> last (file_lines example_pks) = ''END''"
  using file_ends_with_end_line [of example_pks]
  by (simp add: example_pks_def)

text \<open>
  Claim C9, as stated, fails: not every package object gives a file whose last line is
  \<open>END\<close>. With the integer 1 in \<open>l2norm\<close> the norm branch raises, and the
  last line written is the \<open>RCLOSEPKS\<close> line.
\<close>

theorem file_without_end_line_counterexample:
  "last (file_lines (example_pks\<lparr>l2norm := PyInt 1\<rparr>)) = ''RCLOSEPKS 0.1''
   \<and> last (file_lines (example_pks\<lparr>l2norm := PyInt 1\<rparr>)) \<noteq> ''END''
   \<and> snd (write_file (example_pks\<lparr>l2norm := PyInt 1\<rparr>)) = Some AttributeError"
proof -
  have p: "printable (example_pks\<lparr>l2norm := PyInt 1\<rparr>)"
    using example_printable by (simp add: printable_def)
  have n: "write_norm (PyInt 1) = Inl AttributeError" by (simp add: write_norm_def)
  have "last (file_lines (example_pks\<lparr>l2norm := PyInt 1\<rparr>)) = ''RCLOSEPKS 0.1''"
    unfolding file_lines_shape [OF p] by (simp add: example_pks_def n)
  moreover have "snd (write_file (example_pks\<lparr>l2norm := PyInt 1\<rparr>)) = Some AttributeError"
    unfolding write_file_error by (simp add: n)
  ultimately show ?thesis by simp
qed

lemma str_int_examples:
  "str_int 0 = ''0''" "str_int 1 = ''1''" "str_int 2 = ''2''" "str_int 3 = ''3''"
  "str_int 4 = ''4''" "str_int 27 = ''27''"
  by code_simp+

text \<open>
  Claim C5, amended. For every fully populated package object with \<open>mpi\<close> set and
  \<open>l2norm\<close> \<open>None\<close> or a string, the written file is the file written without
  \<open>mpi\<close> with exactly four more lines, \<open>PARTOPT\<close>, \<open>NOVLAPIMPSOL\<close>,
  \<open>STENIMPSOL\<close>, \<open>VERBOSE\<close> in that order, right after the \<open>MUTPKS\<close> line and
  right before the \<open>END\<close> line, whatever \<open>partopt\<close> is (1 and 2 included); when
  \<open>mpi\<close> is not set, none of the four lines appears.
\<close>

theorem mpi_lines_before_end:
  assumes "printable c"
  shows "(mpi c \<and> none_or_str (l2norm c) \<longrightarrow>
            file_lines c =
              butlast (file_lines (c\<lparr>mpi := False\<rparr>))
              @ [''PARTOPT '' @ str_int (partopt c),
                 ''NOVLAPIMPSOL '' @ str_int (novlapimpsol c),
                 ''STENIMPSOL '' @ str_int (stenimpsol c),
                 ''VERBOSE '' @ str_int (verbose c)]
              @ [''END'']
          \<and> last (butlast (file_lines (c\<lparr>mpi := False\<rparr>))) = ''MUTPKS '' @ str_int (mutpks c)
          \<and> last (file_lines (c\<lparr>mpi := False\<rparr>)) = ''END''
          \<and> lines_with ''PARTOPT'' c = [''PARTOPT '' @ str_int (partopt c)]
          \<and> lines_with ''NOVLAPIMPSOL'' c = [''NOVLAPIMPSOL '' @ str_int (novlapimpsol c)]
          \<and> lines_with ''STENIMPSOL'' c = [''STENIMPSOL '' @ str_int (stenimpsol c)]
          \<and> lines_with ''VERBOSE'' c = [''VERBOSE '' @ str_int (verbose c)])
       \<and> (\<not> mpi c \<longrightarrow>
            lines_with ''PARTOPT'' c = [] \<and> lines_with ''NOVLAPIMPSOL'' c = []
          \<and> lines_with ''STENIMPSOL'' c = [] \<and> lines_with ''VERBOSE'' c = [])"
proof -
  have p': "printable (c\<lparr>mpi := False\<rparr>)"
    using assms by (simp add: printable_def)
  have k: "lines_with ''PARTOPT'' c =
             (if mpi c \<and> none_or_str (l2norm c) then [''PARTOPT '' @ str_int (partopt c)] else [])"
    "lines_with ''NOVLAPIMPSOL'' c =
             (if mpi c \<and> none_or_str (l2norm c)
              then [''NOVLAPIMPSOL '' @ str_int (novlapimpsol c)] else [])"
    "lines_with ''STENIMPSOL'' c =
             (if mpi c \<and> none_or_str (l2norm c)
              then [''STENIMPSOL '' @ str_int (stenimpsol c)] else [])"
    "lines_with ''VERBOSE'' c =
             (if mpi c \<and> none_or_str (l2norm c) then [''VERBOSE '' @ str_int (verbose c)] else [])"
    by (subst lines_with_key [OF assms]; simp add: key_line_def)+
  have s: "file_lines c =
              butlast (file_lines (c\<lparr>mpi := False\<rparr>))
              @ [''PARTOPT '' @ str_int (partopt c),
                 ''NOVLAPIMPSOL '' @ str_int (novlapimpsol c),
                 ''STENIMPSOL '' @ str_int (stenimpsol c),
                 ''VERBOSE '' @ str_int (verbose c)]
              @ [''END'']
          \<and> last (butlast (file_lines (c\<lparr>mpi := False\<rparr>))) = ''MUTPKS '' @ str_int (mutpks c)
          \<and> last (file_lines (c\<lparr>mpi := False\<rparr>)) = ''END''"
    if m: "mpi c" and n: "none_or_str (l2norm c)"
  proof -
    from n obtain ws where w: "write_norm (l2norm c) = Inr ws"
      using write_norm_text [of "l2norm c"] by blast
    show ?thesis
      unfolding file_lines_shape [OF assms] file_lines_shape [OF p']
      using m by (simp add: w butlast_append)
  qed
  from k s show ?thesis by simp
qed

theorem mpi_lines_before_end_witness:
  "printable (example_pks\<lparr>mpi := True, partopt := 1\<rparr>)
   \<and> lines_with ''PARTOPT'' (example_pks\<lparr>mpi := True, partopt := 1\<rparr>) = [''PARTOPT 1'']
   \<and> lines_with ''NOVLAPIMPSOL'' (example_pks\<lparr>mpi := True, partopt := 1\<rparr>) = [''NOVLAPIMPSOL 1'']
   \<and> lines_with ''STENIMPSOL'' (example_pks\<lparr>mpi := True, partopt := 1\<rparr>) = [''STENIMPSOL 2'']
   \<and> lines_with ''VERBOSE'' (example_pks\<lparr>mpi := True, partopt := 1\<rparr>) = [''VERBOSE 0'']
   \<and> file_lines (example_pks\<lparr>mpi := True, partopt := 1\<rparr>) =
       butlast (file_lines (example_pks\<lparr>partopt := 1\<rparr>))
       @ [''PARTOPT 1'', ''NOVLAPIMPSOL 1'', ''STENIMPSOL 2'', ''VERBOSE 0'', ''END'']
   \<and> lines_with ''PARTOPT'' example_pks = []"
proof -
  have p: "printable (example_pks\<lparr>mpi := True, partopt := 1\<rparr>)"
    using example_printable by (simp add: printable_def)
  have e: "(example_pks\<lparr>mpi := True, partopt := 1\<rparr>)\<lparr>mpi := False\<rparr> = example_pks\<lparr>partopt := 1\<rparr>"
    by (simp add: example_pks_def)
  have h: "mpi (example_pks\<lparr>mpi := True, partopt := 1\<rparr>)"
    "none_or_str (l2norm (example_pks\<lparr>mpi := True, partopt := 1\<rparr>))"
    "\<not> mpi example_pks"
    by (simp_all add: example_pks_def)
  have v: "partopt (example_pks\<lparr>mpi := True, partopt := 1\<rparr>) = 1"
    "novlapimpsol (example_pks\<lparr>mpi := True, partopt := 1\<rparr>) = 1"
    "stenimpsol (example_pks\<lparr>mpi := True, partopt := 1\<rparr>) = 2"
    "verbose (example_pks\<lparr>mpi := True, partopt := 1\<rparr>) = 0"
    by (simp_all add: example_pks_def)
  from mpi_lines_before_end [OF p] mpi_lines_before_end [OF example_printable] h p
  show ?thesis
    unfolding e v by (simp add: str_int_examples)
qed

text \<open>
  Claim C5, as stated, fails: not every package object with \<open>mpi\<close> set gives the
  four lines. With the integer 1 in \<open>l2norm\<close> the norm branch raises before they are
  written.
\<close>

theorem mpi_lines_missing_counterexample:
  "mpi (example_pks\<lparr>mpi := True, l2norm := PyInt 1\<rparr>)
   \<and> lines_with ''PARTOPT'' (example_pks\<lparr>mpi := True, l2norm := PyInt 1\<rparr>) = []
   \<and> lines_with ''NOVLAPIMPSOL'' (example_pks\<lparr>mpi := True, l2norm := PyInt 1\<rparr>) = []
   \<and> lines_with ''STENIMPSOL'' (example_pks\<lparr>mpi := True, l2norm := PyInt 1\<rparr>) = []
   \<and> lines_with ''VERBOSE'' (example_pks\<lparr>mpi := True, l2norm := PyInt 1\<rparr>) = []
   \<and> snd (write_file (example_pks\<lparr>mpi := True, l2norm := PyInt 1\<rparr>)) = Some AttributeError"
proof -
  have p: "printable (example_pks\<lparr>mpi := True, l2norm := PyInt 1\<rparr>)"
    using example_printable by (simp add: printable_def)
  have n: "write_norm (PyInt 1) = Inl AttributeError" by (simp add: write_norm_def)
  have k: "lines_with ''PARTOPT'' (example_pks\<lparr>mpi := True, l2norm := PyInt 1\<rparr>) = []"
    "lines_with ''NOVLAPIMPSOL'' (example_pks\<lparr>mpi := True, l2norm := PyInt 1\<rparr>) = []"
    "lines_with ''STENIMPSOL'' (example_pks\<lparr>mpi := True, l2norm := PyInt 1\<rparr>) = []"
    "lines_with ''VERBOSE'' (example_pks\<lparr>mpi := True, l2norm := PyInt 1\<rparr>) = []"
    by (subst lines_with_key [OF p]; simp add: key_line_def example_pks_def)+
  have s: "snd (write_file (example_pks\<lparr>mpi := True, l2norm := PyInt 1\<rparr>)) = Some AttributeError"
    unfolding write_file_error by (simp add: n)
  from k s show ?thesis by simp
qed

section \<open>Claims about construction and loading\<close>

lemma str_list_ftype: "str_list [ftype] = ''['' @ [CHR 0x27] @ ''PKS'' @ [CHR 0x27] @ '']''"
  by (simp add: str_list_def ftype_def repr_str_def)

text \<open>
  Claim C4, as stated, fails: with an empty list for \<open>filenames\<close> the constructor
  asks for \<open>filenames[0]\<close> (line 127) before it reaches the version check, and
  raises \<open>IndexError\<close>. For a host model of version \<open>mf2k\<close> the error is then not
  the one that names the package and the version, and for any other version the
  instance is not appended to the package list of the model.
\<close>

theorem init_empty_filenames_counterexample:
  "init (example_model\<lparr>version := ''mf2k''\<rparr>) (default_args\<lparr>filenames := FilenamesList []\<rparr>) =
     (Inl IndexError, example_model\<lparr>version := ''mf2k''\<rparr>)
   \<and> init example_model (default_args\<lparr>filenames := FilenamesList []\<rparr>) =
     (Inl IndexError, example_model)"
  by (simp add: init_def Let_def default_args_def)

text \<open>
  Claim C4, amended. When the argument \<open>filenames\<close> is not an empty list,
  constructing a package object for a host model whose version is \<open>mf2k\<close> or
  \<open>mfnwt\<close> raises an error whose message names the package (\<open>PKS\<close>) and the
  model version; no instance is returned, so none is there to be written to a file, and
  the host model is left as it was, its package list included. For any other version no
  such error is raised and the new instance is appended to the package list of the model.
\<close>

theorem init_version_check:
  assumes "filenames a \<noteq> FilenamesList []"
  shows "(version m = ''mf2k'' \<or> version m = ''mfnwt'' \<longrightarrow>
            init m a =
              (Inl (Exception (''Error: cannot use '' @ str_list [ftype] @
                               '' package with model version '' @ version m)), m))
       \<and> (version m \<noteq> ''mf2k'' \<and> version m \<noteq> ''mfnwt'' \<longrightarrow>
            (\<exists>p. init m a = (Inr p, m\<lparr>packagelist := packagelist m @ [p]\<rparr>)))"
proof (cases "filenames a")
  case FilenamesNone
  then show ?thesis by (simp add: init_def Let_def add_package_def)
next
  case (FilenamesStr s)
  then show ?thesis by (simp add: init_def Let_def add_package_def)
next
  case (FilenamesList fs)
  with assms obtain f0 rest where "fs = f0 # rest" by (cases fs) auto
  with FilenamesList show ?thesis by (simp add: init_def Let_def add_package_def)
qed

theorem init_version_check_witness:
  "filenames default_args \<noteq> FilenamesList []
   \<and> init (example_model\<lparr>version := ''mfnwt''\<rparr>) default_args =
       (Inl (Exception (''Error: cannot use ['' @ [CHR 0x27] @ ''PKS'' @ [CHR 0x27] @
                        ''] package with model version mfnwt'')),
        example_model\<lparr>version := ''mfnwt''\<rparr>)
   \<and> init example_model default_args =
       (Inr example_pks, example_model\<lparr>packagelist := [example_pks]\<rparr>)"
proof -
  have h: "filenames default_args \<noteq> FilenamesList []" by (simp add: default_args_def)
  have e: "init example_model default_args =
       (Inr example_pks, example_model\<lparr>packagelist := [example_pks]\<rparr>)"
    by (simp add: init_def Let_def add_package_def default_args_def example_model_def
        example_pks_def generate_heading_def ftype_def defaultunit_def)
  from init_version_check [OF h, of "example_model\<lparr>version := ''mfnwt''\<rparr>"] h e
  show ?thesis by (simp add: str_list_ftype)
qed

lemma init_default_params:
  assumes "version m \<noteq> ''mf2k''" and "version m \<noteq> ''mfnwt''"
  shows "\<exists>p. init m (default_args\<lparr>unitnumber := u, filenames := FilenamesList [fn]\<rparr>) =
               (Inr p, m\<lparr>packagelist := packagelist m @ [p]\<rparr>)
           \<and> params.truncate p = params.truncate default_args
           \<and> unit_number p = [case u of None \<Rightarrow> 27 | Some n \<Rightarrow> n]
           \<and> file_name p = [fn]"
  using assms
  by (simp add: init_def Let_def add_package_def default_args_def params.truncate_def
      defaultunit_def split: option.split)

text \<open>
  Claim C8, amended. For every host model whose version is neither \<open>mf2k\<close> nor
  \<open>mfnwt\<close> and every file reference that can be opened (a handle, or the name of a
  file that exists), \<open>load\<close> returns a package object whose settings all have the
  defaults of the constructor, whatever the files hold, appends it to the package list
  of the model, and prints the warning that loading is not completed. With no
  external-unit table the object has unit number 27; with a table that has an entry for
  \<open>PKS\<close> it has the unit number and the file name of that entry.
\<close>

theorem load_gives_defaults:
  assumes "version m \<noteq> ''mf2k''" and "version m \<noteq> ''mfnwt''" and "readable f w"
  shows "\<exists>p w'. load f m ext w = (Inr p, m\<lparr>packagelist := packagelist m @ [p]\<rparr>, w')
       \<and> params.truncate p = params.truncate default_args
       \<and> files w' = files w
       \<and> stdout w' = (if model_verbose m
                       then stdout w @ [''loading pks package file...'' @ [nl]]
                       else stdout w) @ [warning_text]
       \<and> (ext = None \<longrightarrow> unit_number p = [27] \<and> file_name p = [None])
       \<and> (\<forall>d u fn. ext = Some d \<and> d ''PKS'' = Some (u, fn)
              \<longrightarrow> unit_number p = [u] \<and> file_name p = [Some fn])
       \<and> (\<forall>w2. readable f w2 \<longrightarrow> fst (load f m ext w2) = Inr p)"
proof -
  define r where "r = (case ext of None \<Rightarrow> (None, None) | Some d \<Rightarrow> get_ext_dict_attr d ftype)"
  obtain u fn where r: "r = (u, fn)" by (cases r)
  from init_default_params [OF assms(1,2), where u = u and fn = fn] obtain p where
    i: "init m (default_args\<lparr>unitnumber := u, filenames := FilenamesList [fn]\<rparr>) =
               (Inr p, m\<lparr>packagelist := packagelist m @ [p]\<rparr>)"
    and t: "params.truncate p = params.truncate default_args"
    and un: "unit_number p = [case u of None \<Rightarrow> 27 | Some n \<Rightarrow> n]"
    and fnm: "file_name p = [fn]"
    by blast
  define w' where "w' = (if model_verbose m
               then w\<lparr>stdout := stdout w @ [''loading pks package file...'' @ [nl]]\<rparr>
               else w)\<lparr>stdout := (if model_verbose m
                       then stdout w @ [''loading pks package file...'' @ [nl]]
                       else stdout w) @ [warning_text]\<rparr>"
  have l: "load f m ext w = (Inr p, m\<lparr>packagelist := packagelist m @ [p]\<rparr>, w')"
    using assms(3) r i
    unfolding load_def readable_def r_def [symmetric] w'_def
    by (cases f) (simp_all add: Let_def r_def [symmetric])
  have l2: "fst (load f m ext w2) = Inr p" if "readable f w2" for w2
    using that r i
    unfolding load_def readable_def r_def [symmetric]
    by (cases f) (simp_all add: Let_def r_def [symmetric])
  have a: "unit_number p = [27] \<and> file_name p = [None]" if "ext = None"
    using that r un fnm by (auto simp add: r_def)
  have b: "unit_number p = [u'] \<and> file_name p = [Some fn']"
    if "ext = Some d" and "d ''PKS'' = Some (u', fn')" for d u' fn'
    using that r un fnm by (auto simp add: r_def get_ext_dict_attr_def ftype_def)
  have c: "files w' = files w" unfolding w'_def by simp
  have d: "stdout w' = (if model_verbose m
                       then stdout w @ [''loading pks package file...'' @ [nl]]
                       else stdout w) @ [warning_text]"
    unfolding w'_def by simp
  from l l2 t a b c d show ?thesis by blast
qed

theorem load_gives_defaults_witness:
  "version example_model \<noteq> ''mf2k'' \<and> version example_model \<noteq> ''mfnwt''
   \<and> readable (Filename ''test.pks'') example_world
   \<and> (\<exists>p w'. load (Filename ''test.pks'') example_model None example_world =
                 (Inr p, example_model\<lparr>packagelist := [p]\<rparr>, w')
          \<and> params.truncate p = params.truncate default_args
          \<and> unit_number p = [27]
          \<and> stdout w' = [warning_text])
   \<and> (\<exists>p w'. load (Filename ''test.pks'') example_model
                   (Some [''PKS'' \<mapsto> (31, ''run.pks'')]) example_world =
                 (Inr p, example_model\<lparr>packagelist := [p]\<rparr>, w')
          \<and> params.truncate p = params.truncate default_args
          \<and> unit_number p = [31] \<and> file_name p = [Some ''run.pks''])"
proof -
  have h: "version example_model \<noteq> ''mf2k''" "version example_model \<noteq> ''mfnwt''"
    "readable (Filename ''test.pks'') example_world"
    by (simp_all add: example_model_def example_world_def readable_def)
  have e: "packagelist example_model = []" "model_verbose example_model = False"
    "stdout example_world = []"
    by (simp_all add: example_model_def example_world_def)
  from load_gives_defaults [OF h, of None]
  have a: "\<exists>p w'. load (Filename ''test.pks'') example_model None example_world =
                 (Inr p, example_model\<lparr>packagelist := [p]\<rparr>, w')
          \<and> params.truncate p = params.truncate default_args
          \<and> unit_number p = [27]
          \<and> stdout w' = [warning_text]"
    unfolding e by auto
  from load_gives_defaults [OF h, of "Some [''PKS'' \<mapsto> (31, ''run.pks'')]"]
  have b: "\<exists>p w'. load (Filename ''test.pks'') example_model
                   (Some [''PKS'' \<mapsto> (31, ''run.pks'')]) example_world =
                 (Inr p, example_model\<lparr>packagelist := [p]\<rparr>, w')
          \<and> params.truncate p = params.truncate default_args
          \<and> unit_number p = [31] \<and> file_name p = [Some ''run.pks'']"
    unfolding e by auto
  from h a b show ?thesis by blast
qed

text \<open>
  Claim C8, as stated, fails: \<open>load\<close> does not return a package object for every
  file reference and host model. For a host model of version \<open>mf2k\<close> the constructor
  that \<open>load\<close> calls raises its version error, and for the name of a file that does
  not exist \<open>open\<close> fails.
\<close>

theorem load_raises_counterexample:
  "fst (load FileHandle (example_model\<lparr>version := ''mf2k''\<rparr>) None example_world) =
     Inl (Exception (''Error: cannot use '' @ str_list [ftype] @
                     '' package with model version mf2k''))
   \<and> fst (load (Filename ''missing.pks'') example_model None example_world) =
     Inl FileNotFoundError"
  by (simp add: load_def init_def Let_def default_args_def example_model_def example_world_def)

end
